theory Spec2Isabelle
  imports Complex_Main
begin

section \<open>PlotaDados.py: data model\<close>

text \<open>
  The script reads \<^verbatim>\<open>mpu_data.csv\<close> into a pandas DataFrame, derives a time axis and the
  acceleration magnitude, draws four charts, prints statistics and saves the figure.

  Modelling decisions.
  \<^item> A loaded column has the dtype pandas infers from the file: \<open>Int64\<close> when every cell
    is an integer literal, \<open>Float64\<close> otherwise. int64 arithmetic wraps around modulo
    \<open>2^64\<close>, as numpy's does.
  \<^item> A float64 Series is a list of reals: float arithmetic is exact, so rounding, overflow,
    NaN cells and signed zeros of float64 are outside the model. The places where the
    script itself produces a non-finite float from finite data (a division by a zero
    duration, a reduction of an empty Series, the square root of a negative int64) are
    kept, as \<open>PosInf\<close> and \<open>NaN\<close>.
  \<^item> A DataFrame is an association list from column names to columns. pandas keeps the
    columns of a frame at one length and their names distinct: \<open>is_dataframe\<close>.
  \<^item> An f-string is the list of its pieces: literal text, and fields with their format.
    The digits a format specification produces are not computed.
  \<^item> The console is the list of the \<^verbatim>\<open>print\<close> calls made so far; the disk maps file names
    to contents. A CSV file is represented by the frame \<^verbatim>\<open>pd.read_csv\<close> parses from it,
    or by the message of the error it raises on it.
  \<^item> A chart keeps its title, its curves (label, x, y) and its horizontal reference line;
    colours, line widths, axis labels, legend and grid are left out.
\<close>

type_synonym series = "real list"

datatype column = Int64 "int list" | Float64 series

type_synonym dataframe = "(string \<times> column) list"

datatype exn =
    FileNotFoundError string
  | KeyError string
  | IndexError string
  | OtherException string
  | KeyboardInterrupt

datatype fnum = Finite real | PosInf | NaN

datatype piece =
    Txt string
  | Str string
  | Num nat
  | Fix nat fnum

type_synonym line = "piece list"

datatype curve = Curve string series "fnum list"

datatype axes = Axes string "curve list" "real option"

datatype figure = Figure string "axes list"

datatype file_content = Csv dataframe | Unparsable string | Png figure

record world =
  console :: "line list"
  disk :: "string \<rightharpoonup> file_content"

type_synonym 'a prog = "world \<Rightarrow> (exn + 'a) \<times> world"

section \<open>Control flow: sequencing, raising, try/except\<close>

definition py_return :: "'a \<Rightarrow> 'a prog" where
  "py_return x w = (Inr x, w)"

definition py_raise :: "exn \<Rightarrow> 'a prog" where
  "py_raise e w = (Inl e, w)"

definition py_bind :: "'a prog \<Rightarrow> ('a \<Rightarrow> 'b prog) \<Rightarrow> 'b prog" where
  "py_bind m f w = (case m w of (Inl e, w') \<Rightarrow> (Inl e, w') | (Inr x, w') \<Rightarrow> f x w')"

definition py_try :: "unit prog \<Rightarrow> (exn \<Rightarrow> unit prog) \<Rightarrow> unit prog" where
  "py_try body handler w = (case body w of (Inl e, w') \<Rightarrow> handler e w' | (Inr x, w') \<Rightarrow> (Inr x, w'))"

definition print :: "line \<Rightarrow> unit prog" where
  "print l w = (Inr (), w\<lparr>console := console w @ [l]\<rparr>)"

fun exn_str :: "exn \<Rightarrow> string" where
  "exn_str (FileNotFoundError f) = ''[Errno 2] No such file or directory: '' @ [CHR 0x27] @ f @ [CHR 0x27]"
| "exn_str (KeyError k) = [CHR 0x27] @ k @ [CHR 0x27]"
| "exn_str (IndexError m) = m"
| "exn_str (OtherException m) = m"
| "exn_str KeyboardInterrupt = []"

section \<open>pandas, numpy and matplotlib operations the script calls\<close>

text \<open>
  \<^verbatim>\<open>pd.read_csv\<close>: a missing file raises \<^verbatim>\<open>FileNotFoundError\<close>; content it cannot parse raises
  an \<^verbatim>\<open>Exception\<close> of another class. A PNG image starts with the byte 0x89, which is not
  UTF-8.
\<close>

definition png_decode_message :: string where
  "png_decode_message =
     [CHR 0x27] @ ''utf-8'' @ [CHR 0x27] @
     '' codec can't decode byte 0x89 in position 0: invalid start byte''"

definition read_csv :: "string \<Rightarrow> dataframe prog" where
  "read_csv name w =
     (case disk w name of
        None \<Rightarrow> (Inl (FileNotFoundError name), w)
      | Some (Csv df) \<Rightarrow> (Inr df, w)
      | Some (Unparsable m) \<Rightarrow> (Inl (OtherException m), w)
      | Some (Png fig) \<Rightarrow> (Inl (OtherException png_decode_message), w))"

text \<open>The values of a column as floats, as \<^verbatim>\<open>astype(float)\<close> gives them.\<close>

fun as_float :: "column \<Rightarrow> series" where
  "as_float (Int64 xs) = map real_of_int xs"
| "as_float (Float64 xs) = xs"

definition len_df :: "dataframe \<Rightarrow> nat" where
  "len_df df = (case df of [] \<Rightarrow> 0 | (c, col) # rest \<Rightarrow> length (as_float col))"

definition getitem :: "dataframe \<Rightarrow> string \<Rightarrow> column prog" where
  "getitem df c = (case map_of df c of None \<Rightarrow> py_raise (KeyError c) | Some col \<Rightarrow> py_return col)"

text \<open>The value an int64 operation stores: the exact result reduced into \<open>[-2^63, 2^63)\<close>.\<close>

definition wrap64 :: "int \<Rightarrow> int" where
  "wrap64 x = (x + 2 ^ 63) mod 2 ^ 64 - 2 ^ 63"

text \<open>
  \<^verbatim>\<open>column * 0.1\<close>: an int64 column times a float is a float64 Series. \<^verbatim>\<open>column ** n\<close> keeps the
  dtype, and wraps on int64. \<^verbatim>\<open>a + b\<close> is int64, wrapping, when both operands are, and
  float64 otherwise. \<^verbatim>\<open>np.sqrt\<close> converts to float64 and gives NaN on a negative entry.
\<close>

definition series_mul :: "column \<Rightarrow> real \<Rightarrow> series" where
  "series_mul col k = map (\<lambda>x. x * k) (as_float col)"

fun series_pow :: "column \<Rightarrow> nat \<Rightarrow> column" where
  "series_pow (Int64 xs) n = Int64 (map (\<lambda>x. wrap64 (x ^ n)) xs)"
| "series_pow (Float64 xs) n = Float64 (map (\<lambda>x. x ^ n) xs)"

fun series_add :: "column \<Rightarrow> column \<Rightarrow> column" where
  "series_add (Int64 xs) (Int64 ys) = Int64 (map (\<lambda>(x, y). wrap64 (x + y)) (zip xs ys))"
| "series_add a b = Float64 (map (\<lambda>(x, y). x + y) (zip (as_float a) (as_float b)))"

definition np_sqrt :: "column \<Rightarrow> fnum list" where
  "np_sqrt col = map (\<lambda>x. if x < 0 then NaN else Finite (sqrt x)) (as_float col)"

definition iloc_last :: "series \<Rightarrow> real prog" where
  "iloc_last xs =
     (if xs = [] then py_raise (IndexError ''single positional indexer is out-of-bounds'')
      else py_return (last xs))"

definition np_div :: "nat \<Rightarrow> real \<Rightarrow> fnum" where
  "np_div n t = (if t = 0 then (if n = 0 then NaN else PosInf) else Finite (real n / t))"

text \<open>
  \<^verbatim>\<open>min\<close>, \<^verbatim>\<open>max\<close> and \<^verbatim>\<open>mean\<close> of a column, on its values: the minimum and maximum of an int64
  column are exact, and pandas accumulates the mean of an int64 column in float64, so
  nothing wraps. On an empty Series all three are NaN.
\<close>

definition series_min :: "series \<Rightarrow> fnum" where
  "series_min xs = (case xs of [] \<Rightarrow> NaN | x # rest \<Rightarrow> Finite (fold min rest x))"

definition series_max :: "series \<Rightarrow> fnum" where
  "series_max xs = (case xs of [] \<Rightarrow> NaN | x # rest \<Rightarrow> Finite (fold max rest x))"

definition series_mean :: "series \<Rightarrow> fnum" where
  "series_mean xs = (if xs = [] then NaN else Finite (sum_list xs / real (length xs)))"

definition savefig :: "string \<Rightarrow> figure \<Rightarrow> unit prog" where
  "savefig name fig w = (Inr (), w\<lparr>disk := (disk w)(name \<mapsto> Png fig)\<rparr>)"

section \<open>The script\<close>

definition filename :: string where
  "filename = ''mpu_data.csv''"

definition image_name :: string where
  "image_name = ''mpu6050_analysis.png''"

definition expected_columns :: "string list" where
  "expected_columns =
     [''Sample'', ''AccelX'', ''AccelY'', ''AccelZ'', ''GyroX'', ''GyroY'', ''GyroZ'', ''Roll'', ''Pitch'']"

text \<open>
  The frames pandas builds: distinct column names, all columns of the length of the frame,
  every int64 entry within the range of int64. A well-formed dataset is such a frame with
  every expected column.
\<close>

fun in_dtype :: "column \<Rightarrow> bool" where
  "in_dtype (Int64 xs) = list_all (\<lambda>x. - (2 ^ 63) \<le> x \<and> x < 2 ^ 63) xs"
| "in_dtype (Float64 xs) = True"

definition is_dataframe :: "dataframe \<Rightarrow> bool" where
  "is_dataframe df \<longleftrightarrow>
     distinct (map fst df) \<and>
     list_all (\<lambda>(c, col). length (as_float col) = len_df df \<and> in_dtype col) df"

definition well_formed :: "dataframe \<Rightarrow> bool" where
  "well_formed df \<longleftrightarrow> is_dataframe df \<and> list_all (\<lambda>c. map_of df c \<noteq> None) expected_columns"

text \<open>Line 14: \<^verbatim>\<open>time = data['Sample'] * 0.1\<close>.\<close>

definition compute_time :: "dataframe \<Rightarrow> series prog" where
  "compute_time data = py_bind (getitem data ''Sample'') (\<lambda>sample. py_return (series_mul sample 0.1))"

text \<open>One \<^verbatim>\<open>axes.plot(time, data[c], label=c)\<close> call.\<close>

definition plot_column :: "dataframe \<Rightarrow> series \<Rightarrow> string \<Rightarrow> curve prog" where
  "plot_column data time c =
     py_bind (getitem data c) (\<lambda>ys. py_return (Curve c time (map Finite (as_float ys))))"

text \<open>Lines 21 to 28, 31 to 38 and 41 to 47: the first three charts.\<close>

definition plot_acceleration :: "dataframe \<Rightarrow> series \<Rightarrow> axes prog" where
  "plot_acceleration data time =
     py_bind (plot_column data time ''AccelX'') (\<lambda>cx.
     py_bind (plot_column data time ''AccelY'') (\<lambda>cy.
     py_bind (plot_column data time ''AccelZ'') (\<lambda>cz.
     py_return (Axes ''Acceleration (g)'' [cx, cy, cz] None))))"

definition plot_gyroscope :: "dataframe \<Rightarrow> series \<Rightarrow> axes prog" where
  "plot_gyroscope data time =
     py_bind (plot_column data time ''GyroX'') (\<lambda>cx.
     py_bind (plot_column data time ''GyroY'') (\<lambda>cy.
     py_bind (plot_column data time ''GyroZ'') (\<lambda>cz.
     py_return (Axes ''Gyroscope (deg/s)'' [cx, cy, cz] None))))"

definition plot_angles :: "dataframe \<Rightarrow> series \<Rightarrow> axes prog" where
  "plot_angles data time =
     py_bind (plot_column data time ''Roll'') (\<lambda>cr.
     py_bind (plot_column data time ''Pitch'') (\<lambda>cp.
     py_return (Axes ''Orientation Angles (deg)'' [cr, cp] None)))"

text \<open>Line 50: \<^verbatim>\<open>np.sqrt(data['AccelX']**2 + data['AccelY']**2 + data['AccelZ']**2)\<close>.\<close>

definition accel_magnitude :: "dataframe \<Rightarrow> fnum list prog" where
  "accel_magnitude data =
     py_bind (getitem data ''AccelX'') (\<lambda>ax.
     py_bind (getitem data ''AccelY'') (\<lambda>ay.
     py_bind (getitem data ''AccelZ'') (\<lambda>az.
     py_return (np_sqrt (series_add (series_add (series_pow ax 2) (series_pow ay 2)) (series_pow az 2))))))"

text \<open>Lines 50 to 57: the fourth chart, with the reference line at 1.0.\<close>

definition plot_magnitude :: "dataframe \<Rightarrow> series \<Rightarrow> axes prog" where
  "plot_magnitude data time =
     py_bind (accel_magnitude data) (\<lambda>m.
     py_return (Axes ''Acceleration Magnitude'' [Curve ''Magnitude'' time m] (Some 1)))"

text \<open>
  One statistics line, as in
  \<^verbatim>\<open>print(f"  X: min={data[c].min():.3f}, max={data[c].max():.3f}, avg={data[c].mean():.3f}")\<close>:
  the column is looked up three times, left to right.
\<close>

definition stats_line :: "string \<Rightarrow> nat \<Rightarrow> series \<Rightarrow> series \<Rightarrow> series \<Rightarrow> line" where
  "stats_line prefix d a b m =
     [Txt prefix, Txt ''min='', Fix d (series_min a), Txt '', max='', Fix d (series_max b),
      Txt '', avg='', Fix d (series_mean m)]"

definition print_stats :: "dataframe \<Rightarrow> string \<Rightarrow> string \<Rightarrow> nat \<Rightarrow> unit prog" where
  "print_stats data prefix c d =
     py_bind (getitem data c) (\<lambda>a.
     py_bind (getitem data c) (\<lambda>b.
     py_bind (getitem data c) (\<lambda>m.
     print (stats_line prefix d (as_float a) (as_float b) (as_float m)))))"

text \<open>Lines 62 and 63: duration and sample rate.\<close>

definition duration_line :: "real \<Rightarrow> line" where
  "duration_line t = [Txt ''Duration: '', Fix 1 (Finite t), Txt '' seconds'']"

definition print_duration :: "series \<Rightarrow> unit prog" where
  "print_duration time = py_bind (iloc_last time) (\<lambda>t. print (duration_line t))"

definition sample_rate_line :: "fnum \<Rightarrow> line" where
  "sample_rate_line rate = [Txt ''Sample rate: '', Fix 1 rate, Txt '' Hz'']"

definition print_sample_rate :: "dataframe \<Rightarrow> series \<Rightarrow> unit prog" where
  "print_sample_rate data time =
     py_bind (iloc_last time) (\<lambda>t. print (sample_rate_line (np_div (len_df data) t)))"

text \<open>Lines 62 to 77: the report.\<close>

definition report :: "dataframe \<Rightarrow> series \<Rightarrow> unit prog" where
  "report data time =
     py_bind (print_duration time) (\<lambda>_.
     py_bind (print_sample_rate data time) (\<lambda>_.
     py_bind (print [Txt (CHR 0x0A # ''Acceleration statistics (g):'')]) (\<lambda>_.
     py_bind (print_stats data ''  X: '' ''AccelX'' 3) (\<lambda>_.
     py_bind (print_stats data ''  Y: '' ''AccelY'' 3) (\<lambda>_.
     py_bind (print_stats data ''  Z: '' ''AccelZ'' 3) (\<lambda>_.
     py_bind (print [Txt (CHR 0x0A # ''Gyroscope statistics (deg/s):'')]) (\<lambda>_.
     py_bind (print_stats data ''  X: '' ''GyroX'' 1) (\<lambda>_.
     py_bind (print_stats data ''  Y: '' ''GyroY'' 1) (\<lambda>_.
     py_bind (print_stats data ''  Z: '' ''GyroZ'' 1) (\<lambda>_.
     py_bind (print [Txt (CHR 0x0A # ''Angle statistics (deg):'')]) (\<lambda>_.
     py_bind (print_stats data ''  Roll:  '' ''Roll'' 1) (\<lambda>_.
     print_stats data ''  Pitch: '' ''Pitch'' 1))))))))))))"

text \<open>
  Lines 9 to 84: the body of the \<^verbatim>\<open>try\<close>. \<^verbatim>\<open>plt.show()\<close> on line 80 displays the figure
  and changes neither the console nor the disk; it is taken to return with the figure still
  current, as under a non-interactive backend, so that \<^verbatim>\<open>plt.savefig\<close> writes the four charts.
\<close>

definition loaded_line :: "nat \<Rightarrow> line" where
  "loaded_line n = [Txt ''Data loaded: '', Num n, Txt '' samples'']"

definition saved_line :: line where
  "saved_line = [Txt (CHR 0x0A # ''Plot saved as: mpu6050_analysis.png'')]"

definition try_body :: "unit prog" where
  "try_body =
     py_bind (read_csv filename) (\<lambda>data.
     py_bind (print (loaded_line (len_df data))) (\<lambda>_.
     py_bind (compute_time data) (\<lambda>time.
     py_bind (plot_acceleration data time) (\<lambda>a00.
     py_bind (plot_gyroscope data time) (\<lambda>a01.
     py_bind (plot_angles data time) (\<lambda>a10.
     py_bind (plot_magnitude data time) (\<lambda>a11.
     py_bind (report data time) (\<lambda>_.
     py_bind (savefig image_name (Figure ''MPU6050 Data Analysis'' [a00, a01, a10, a11])) (\<lambda>_.
     print saved_line)))))))))"

text \<open>
  Lines 86 to 99: the three \<^verbatim>\<open>except\<close> clauses, tried in order. \<^verbatim>\<open>KeyboardInterrupt\<close> is
  not an \<^verbatim>\<open>Exception\<close>, so no clause catches it.
\<close>

definition file_not_found_message :: "line list" where
  "file_not_found_message =
     [[Txt ''ERROR: File '', Txt [CHR 0x27], Str filename, Txt [CHR 0x27], Txt '' not found!''],
      [Txt (CHR 0x0A # ''Make sure to:'')],
      [Txt ''1. Transfer CSV file from microcontroller using 't' command''],
      [Txt (''2. Copy data between markers and save as 'mpu_data.csv'' @ [CHR 0x27])],
      [Txt ''3. Put file in same folder as this script'']]"

definition key_error_message :: "exn \<Rightarrow> line list" where
  "key_error_message e =
     [[Txt ''ERROR: Column not found: '', Str (exn_str e)],
      [Txt ''Check if CSV has correct header:''],
      [Txt ''Sample,AccelX,AccelY,AccelZ,GyroX,GyroY,GyroZ,Roll,Pitch'']]"

fun prints :: "line list \<Rightarrow> unit prog" where
  "prints [] = py_return ()"
| "prints (l # ls) = py_bind (print l) (\<lambda>_. prints ls)"

fun except :: "exn \<Rightarrow> unit prog" where
  "except (FileNotFoundError f) = prints file_not_found_message"
| "except (KeyError k) = prints (key_error_message (KeyError k))"
| "except KeyboardInterrupt = py_raise KeyboardInterrupt"
| "except e = print [Txt ''ERROR: '', Str (exn_str e)]"

text \<open>Lines 101 to 105: printed after the \<^verbatim>\<open>try\<close> statement.\<close>

definition usage_instructions :: "line list" where
  "usage_instructions =
     [[Txt (CHR 0x0A # ''USAGE INSTRUCTIONS:'')],
      [Txt (''1. On microcontroller: press 't' -> type 'mpu_data.csv'' @ [CHR 0x27])],
      [Txt ''2. Copy data between markers''],
      [Txt (''3. Paste in text file and save as 'mpu_data.csv'' @ [CHR 0x27])],
      [Txt ''4. Run: python PlotaDados.py'']]"

definition main :: "unit prog" where
  "main = py_bind (py_try try_body except) (\<lambda>_. prints usage_instructions)"

section \<open>Reference definitions and test data\<close>

text \<open>
  The aggregates the specification compares the report with: minimum, maximum and
  arithmetic mean taken directly over a column, and the statistics line built from them.
\<close>

definition direct_min :: "series \<Rightarrow> real" where
  "direct_min xs = Min (set xs)"

definition direct_max :: "series \<Rightarrow> real" where
  "direct_max xs = Max (set xs)"

definition direct_mean :: "series \<Rightarrow> real" where
  "direct_mean xs = sum_list xs / real (length xs)"

definition direct_stats_line :: "string \<Rightarrow> nat \<Rightarrow> series \<Rightarrow> line" where
  "direct_stats_line prefix d xs =
     [Txt prefix, Txt ''min='', Fix d (Finite (direct_min xs)), Txt '', max='',
      Fix d (Finite (direct_max xs)), Txt '', avg='', Fix d (Finite (direct_mean xs))]"

text \<open>
  The three-row dataset of the specification's last testable property, with its integer
  literals loaded as int64; the columns it does not fix are parameters.
\<close>

definition fixed_dataset :: "column \<Rightarrow> column \<Rightarrow> column \<Rightarrow> column \<Rightarrow> column \<Rightarrow> dataframe" where
  "fixed_dataset gx gy gz r p =
     [(''Sample'', Int64 [0, 1, 2]), (''AccelX'', Int64 [0, 0, 0]), (''AccelY'', Int64 [0, 0, 0]),
      (''AccelZ'', Int64 [1, 1, 1]), (''GyroX'', gx), (''GyroY'', gy), (''GyroZ'', gz),
      (''Roll'', r), (''Pitch'', p)]"

text \<open>
  The same dataset with the remaining columns all zero, and with GyroX holding 1, 2, 3;
  a frame with two of the nine columns.
\<close>

definition three_rows :: dataframe where
  "three_rows =
     fixed_dataset (Float64 [0, 0, 0]) (Float64 [0, 0, 0]) (Float64 [0, 0, 0])
       (Float64 [0, 0, 0]) (Float64 [0, 0, 0])"

definition gyro_ramp :: dataframe where
  "gyro_ramp =
     fixed_dataset (Float64 [1, 2, 3]) (Float64 [0, 0, 0]) (Float64 [0, 0, 0])
       (Float64 [0, 0, 0]) (Float64 [0, 0, 0])"

definition two_columns :: dataframe where
  "two_columns = [(''Sample'', Int64 [0, 1]), (''AccelX'', Float64 [1, 2])]"

text \<open>A header-only file: every expected column, no rows.\<close>

definition header_only :: dataframe where
  "header_only = map (\<lambda>c. (c, Float64 [])) expected_columns"


text \<open>
  The square an int64 column contributes to the sum of line 50 at a row; a float64 column
  contributes none.
\<close>

fun int_square :: "column \<Rightarrow> nat \<Rightarrow> int" where
  "int_square (Int64 xs) i = (xs ! i)\<^sup>2"
| "int_square (Float64 xs) i = 0"

text \<open>A disk holding only the input file, and an empty console.\<close>

definition fresh_world :: "file_content \<Rightarrow> world" where
  "fresh_world f = \<lparr>console = [], disk = [filename \<mapsto> f]\<rparr>"

section \<open>Running the operations\<close>

lemma bind_ok: "m w = (Inr x, w') \<Longrightarrow> py_bind m f w = f x w'"
  by (simp add: py_bind_def)

lemma bind_err: "m w = (Inl e, w') \<Longrightarrow> py_bind m f w = (Inl e, w')"
  by (simp add: py_bind_def)

lemma print_ok: "print l w = (Inr (), w\<lparr>console := console w @ [l]\<rparr>)"
  by (simp add: print_def)

lemma getitem_ok: "map_of df c = Some xs \<Longrightarrow> getitem df c w = (Inr xs, w)"
  by (simp add: getitem_def py_return_def)

lemma getitem_err: "map_of df c = None \<Longrightarrow> getitem df c w = (Inl (KeyError c), w)"
  by (simp add: getitem_def py_raise_def)

lemma prints_ok: "prints ls w = (Inr (), w\<lparr>console := console w @ ls\<rparr>)"
  by (induction ls arbitrary: w) (simp_all add: py_return_def bind_ok [OF print_ok])

lemma compute_time_ok:
  "map_of data ''Sample'' = Some s \<Longrightarrow> compute_time data w = (Inr (series_mul s 0.1), w)"
  by (simp add: compute_time_def bind_ok [OF getitem_ok] py_return_def)

lemma compute_time_err:
  "map_of data ''Sample'' = None \<Longrightarrow> compute_time data w = (Inl (KeyError ''Sample''), w)"
  by (simp add: compute_time_def bind_err [OF getitem_err])

lemma plot_column_ok:
  "map_of data c = Some ys \<Longrightarrow>
   plot_column data time c w = (Inr (Curve c time (map Finite (as_float ys))), w)"
  by (simp add: plot_column_def bind_ok [OF getitem_ok] py_return_def)

lemma plot_column_err:
  "map_of data c = None \<Longrightarrow> plot_column data time c w = (Inl (KeyError c), w)"
  by (simp add: plot_column_def bind_err [OF getitem_err])

lemma plot_acceleration_ok:
  "map_of data ''AccelX'' = Some ax \<Longrightarrow> map_of data ''AccelY'' = Some ay \<Longrightarrow>
   map_of data ''AccelZ'' = Some az \<Longrightarrow>
   plot_acceleration data time w =
     (Inr (Axes ''Acceleration (g)''
        [Curve ''AccelX'' time (map Finite (as_float ax)),
         Curve ''AccelY'' time (map Finite (as_float ay)),
         Curve ''AccelZ'' time (map Finite (as_float az))] None), w)"
  by (simp add: plot_acceleration_def bind_ok [OF plot_column_ok] py_return_def)

lemma plot_gyroscope_ok:
  "map_of data ''GyroX'' = Some gx \<Longrightarrow> map_of data ''GyroY'' = Some gy \<Longrightarrow>
   map_of data ''GyroZ'' = Some gz \<Longrightarrow>
   plot_gyroscope data time w =
     (Inr (Axes ''Gyroscope (deg/s)''
        [Curve ''GyroX'' time (map Finite (as_float gx)),
         Curve ''GyroY'' time (map Finite (as_float gy)),
         Curve ''GyroZ'' time (map Finite (as_float gz))] None), w)"
  by (simp add: plot_gyroscope_def bind_ok [OF plot_column_ok] py_return_def)

lemma plot_angles_ok:
  "map_of data ''Roll'' = Some r \<Longrightarrow> map_of data ''Pitch'' = Some p \<Longrightarrow>
   plot_angles data time w =
     (Inr (Axes ''Orientation Angles (deg)''
        [Curve ''Roll'' time (map Finite (as_float r)),
         Curve ''Pitch'' time (map Finite (as_float p))] None), w)"
  by (simp add: plot_angles_def bind_ok [OF plot_column_ok] py_return_def)

lemma accel_magnitude_ok:
  "map_of data ''AccelX'' = Some ax \<Longrightarrow> map_of data ''AccelY'' = Some ay \<Longrightarrow>
   map_of data ''AccelZ'' = Some az \<Longrightarrow>
   accel_magnitude data w =
     (Inr (np_sqrt (series_add (series_add (series_pow ax 2) (series_pow ay 2)) (series_pow az 2))), w)"
  by (simp add: accel_magnitude_def bind_ok [OF getitem_ok] py_return_def)

lemma plot_magnitude_ok:
  "map_of data ''AccelX'' = Some ax \<Longrightarrow> map_of data ''AccelY'' = Some ay \<Longrightarrow>
   map_of data ''AccelZ'' = Some az \<Longrightarrow>
   plot_magnitude data time w =
     (Inr (Axes ''Acceleration Magnitude''
        [Curve ''Magnitude'' time
           (np_sqrt (series_add (series_add (series_pow ax 2) (series_pow ay 2)) (series_pow az 2)))]
        (Some 1)), w)"
  by (simp add: plot_magnitude_def bind_ok [OF accel_magnitude_ok] py_return_def)

lemma print_stats_ok:
  "map_of data c = Some xs \<Longrightarrow>
   print_stats data prefix c d w =
     (Inr (), w\<lparr>console := console w @ [stats_line prefix d (as_float xs) (as_float xs) (as_float xs)]\<rparr>)"
  by (simp add: print_stats_def bind_ok [OF getitem_ok] print_ok)

lemma iloc_last_ok: "xs \<noteq> [] \<Longrightarrow> iloc_last xs w = (Inr (last xs), w)"
  by (simp add: iloc_last_def py_return_def)

lemma iloc_last_err:
  "iloc_last [] w = (Inl (IndexError ''single positional indexer is out-of-bounds''), w)"
  by (simp add: iloc_last_def py_raise_def)

lemma print_duration_ok:
  "time \<noteq> [] \<Longrightarrow>
   print_duration time w = (Inr (), w\<lparr>console := console w @ [duration_line (last time)]\<rparr>)"
  by (simp add: print_duration_def bind_ok [OF iloc_last_ok] print_ok)

lemma print_sample_rate_ok:
  "time \<noteq> [] \<Longrightarrow>
   print_sample_rate data time w =
     (Inr (), w\<lparr>console := console w @ [sample_rate_line (np_div (len_df data) (last time))]\<rparr>)"
  by (simp add: print_sample_rate_def bind_ok [OF iloc_last_ok] print_ok)

lemma report_ok:
  assumes "time \<noteq> []"
    and "map_of data ''AccelX'' = Some ax" and "map_of data ''AccelY'' = Some ay"
    and "map_of data ''AccelZ'' = Some az"
    and "map_of data ''GyroX'' = Some gx" and "map_of data ''GyroY'' = Some gy"
    and "map_of data ''GyroZ'' = Some gz"
    and "map_of data ''Roll'' = Some r" and "map_of data ''Pitch'' = Some p"
  shows "report data time w =
     (Inr (), w\<lparr>console := console w @
        [duration_line (last time),
         sample_rate_line (np_div (len_df data) (last time)),
         [Txt (CHR 0x0A # ''Acceleration statistics (g):'')],
         stats_line ''  X: '' 3 (as_float ax) (as_float ax) (as_float ax),
         stats_line ''  Y: '' 3 (as_float ay) (as_float ay) (as_float ay),
         stats_line ''  Z: '' 3 (as_float az) (as_float az) (as_float az),
         [Txt (CHR 0x0A # ''Gyroscope statistics (deg/s):'')],
         stats_line ''  X: '' 1 (as_float gx) (as_float gx) (as_float gx),
         stats_line ''  Y: '' 1 (as_float gy) (as_float gy) (as_float gy),
         stats_line ''  Z: '' 1 (as_float gz) (as_float gz) (as_float gz),
         [Txt (CHR 0x0A # ''Angle statistics (deg):'')],
         stats_line ''  Roll:  '' 1 (as_float r) (as_float r) (as_float r),
         stats_line ''  Pitch: '' 1 (as_float p) (as_float p) (as_float p)]\<rparr>)"
  using assms
  by (simp add: report_def bind_ok [OF print_duration_ok] bind_ok [OF print_sample_rate_ok]
      bind_ok [OF print_ok] bind_ok [OF print_stats_ok] print_stats_ok)

lemma print_duration_err:
  "print_duration [] w = (Inl (IndexError ''single positional indexer is out-of-bounds''), w)"
  by (simp add: print_duration_def bind_err [OF iloc_last_err])

lemma report_err:
  "report data [] w = (Inl (IndexError ''single positional indexer is out-of-bounds''), w)"
  by (simp add: report_def bind_err [OF print_duration_err])

lemma read_csv_ok: "disk w name = Some (Csv data) \<Longrightarrow> read_csv name w = (Inr data, w)"
  by (simp add: read_csv_def)

lemma savefig_ok: "savefig name fig w = (Inr (), w\<lparr>disk := (disk w)(name \<mapsto> Png fig)\<rparr>)"
  by (simp add: savefig_def)

lemma try_body_ok:
  assumes "disk w filename = Some (Csv data)"
    and "map_of data ''Sample'' = Some s" and "as_float s \<noteq> []"
    and "map_of data ''AccelX'' = Some ax" and "map_of data ''AccelY'' = Some ay"
    and "map_of data ''AccelZ'' = Some az"
    and "map_of data ''GyroX'' = Some gx" and "map_of data ''GyroY'' = Some gy"
    and "map_of data ''GyroZ'' = Some gz"
    and "map_of data ''Roll'' = Some r" and "map_of data ''Pitch'' = Some p"
  shows "try_body w =
     (Inr (), w\<lparr>console := console w @
        [loaded_line (len_df data),
         duration_line (last (series_mul s 0.1)),
         sample_rate_line (np_div (len_df data) (last (series_mul s 0.1))),
         [Txt (CHR 0x0A # ''Acceleration statistics (g):'')],
         stats_line ''  X: '' 3 (as_float ax) (as_float ax) (as_float ax),
         stats_line ''  Y: '' 3 (as_float ay) (as_float ay) (as_float ay),
         stats_line ''  Z: '' 3 (as_float az) (as_float az) (as_float az),
         [Txt (CHR 0x0A # ''Gyroscope statistics (deg/s):'')],
         stats_line ''  X: '' 1 (as_float gx) (as_float gx) (as_float gx),
         stats_line ''  Y: '' 1 (as_float gy) (as_float gy) (as_float gy),
         stats_line ''  Z: '' 1 (as_float gz) (as_float gz) (as_float gz),
         [Txt (CHR 0x0A # ''Angle statistics (deg):'')],
         stats_line ''  Roll:  '' 1 (as_float r) (as_float r) (as_float r),
         stats_line ''  Pitch: '' 1 (as_float p) (as_float p) (as_float p),
         saved_line],
       disk := (disk w)(image_name \<mapsto> Png (Figure ''MPU6050 Data Analysis''
         [Axes ''Acceleration (g)''
            [Curve ''AccelX'' (series_mul s 0.1) (map Finite (as_float ax)),
             Curve ''AccelY'' (series_mul s 0.1) (map Finite (as_float ay)),
             Curve ''AccelZ'' (series_mul s 0.1) (map Finite (as_float az))] None,
          Axes ''Gyroscope (deg/s)''
            [Curve ''GyroX'' (series_mul s 0.1) (map Finite (as_float gx)),
             Curve ''GyroY'' (series_mul s 0.1) (map Finite (as_float gy)),
             Curve ''GyroZ'' (series_mul s 0.1) (map Finite (as_float gz))] None,
          Axes ''Orientation Angles (deg)''
            [Curve ''Roll'' (series_mul s 0.1) (map Finite (as_float r)),
             Curve ''Pitch'' (series_mul s 0.1) (map Finite (as_float p))] None,
          Axes ''Acceleration Magnitude''
            [Curve ''Magnitude'' (series_mul s 0.1)
               (np_sqrt (series_add (series_add (series_pow ax 2) (series_pow ay 2)) (series_pow az 2)))]
            (Some 1)]))\<rparr>)"
proof -
  have t: "series_mul s 0.1 \<noteq> []" using assms(3) by (simp add: series_mul_def)
  show ?thesis
    using assms t
    by (simp add: try_body_def bind_ok [OF read_csv_ok] bind_ok [OF print_ok]
        bind_ok [OF compute_time_ok] bind_ok [OF plot_acceleration_ok]
        bind_ok [OF plot_gyroscope_ok] bind_ok [OF plot_angles_ok] bind_ok [OF plot_magnitude_ok]
        bind_ok [OF report_ok] bind_ok [OF savefig_ok] print_ok)
qed

section \<open>The outcomes of the try body\<close>

lemmas exec_defs = try_body_def py_bind_def py_return_def py_raise_def read_csv_def print_def
  compute_time_def plot_acceleration_def plot_gyroscope_def plot_angles_def plot_magnitude_def
  accel_magnitude_def plot_column_def getitem_def

lemma try_body_key_error:
  assumes "disk w filename = Some (Csv data)"
    and "find (\<lambda>c. map_of data c = None) expected_columns = Some c"
  shows "try_body w = (Inl (KeyError c), w\<lparr>console := console w @ [loaded_line (len_df data)]\<rparr>)"
  using assms
  by (auto simp: expected_columns_def exec_defs split: if_splits)

lemma try_body_no_file:
  "disk w filename = None \<Longrightarrow> try_body w = (Inl (FileNotFoundError filename), w)"
  by (simp add: try_body_def bind_err read_csv_def)

lemma try_body_unparsable:
  "disk w filename = Some (Unparsable m) \<Longrightarrow> try_body w = (Inl (OtherException m), w)"
  by (simp add: try_body_def bind_err read_csv_def)

lemma try_body_png:
  "disk w filename = Some (Png fig) \<Longrightarrow>
   try_body w = (Inl (OtherException png_decode_message), w)"
  by (simp add: try_body_def bind_err read_csv_def)

lemma try_body_empty:
  assumes "disk w filename = Some (Csv data)"
    and "find (\<lambda>c. map_of data c = None) expected_columns = None"
    and "map_of data ''Sample'' = Some s" and "as_float s = []"
  shows "try_body w = (Inl (IndexError ''single positional indexer is out-of-bounds''),
      w\<lparr>console := console w @ [loaded_line (len_df data)]\<rparr>)"
  using assms
  by (auto simp: expected_columns_def exec_defs series_mul_def report_err split: if_splits)

section \<open>The outcomes of the script\<close>

lemma main_after_try:
  "py_try try_body except w = (Inr (), w') \<Longrightarrow>
   main w = (Inr (), w'\<lparr>console := console w' @ usage_instructions\<rparr>)"
  by (simp add: main_def bind_ok prints_ok)

lemma main_no_file:
  assumes "disk w filename = None"
  shows "main w = (Inr (), w\<lparr>console := console w @ file_not_found_message @ usage_instructions\<rparr>)"
proof -
  have "py_try try_body except w = (Inr (), w\<lparr>console := console w @ file_not_found_message\<rparr>)"
    using try_body_no_file [OF assms] by (simp add: py_try_def prints_ok)
  from main_after_try [OF this] show ?thesis by simp
qed

lemma main_key_error:
  assumes "disk w filename = Some (Csv data)"
    and "find (\<lambda>c. map_of data c = None) expected_columns = Some c"
  shows "main w = (Inr (), w\<lparr>console := console w @ [loaded_line (len_df data)] @
            key_error_message (KeyError c) @ usage_instructions\<rparr>)"
proof -
  have "py_try try_body except w =
      (Inr (), w\<lparr>console := console w @ [loaded_line (len_df data)] @ key_error_message (KeyError c)\<rparr>)"
    using try_body_key_error [OF assms] by (simp add: py_try_def prints_ok)
  from main_after_try [OF this] show ?thesis by simp
qed

lemma main_empty:
  assumes "disk w filename = Some (Csv data)"
    and "find (\<lambda>c. map_of data c = None) expected_columns = None"
    and "map_of data ''Sample'' = Some s" and "as_float s = []"
  shows "main w = (Inr (), w\<lparr>console := console w @
            [loaded_line (len_df data),
             [Txt ''ERROR: '', Str ''single positional indexer is out-of-bounds'']] @
            usage_instructions\<rparr>)"
proof -
  have "py_try try_body except w =
      (Inr (), w\<lparr>console := console w @ [loaded_line (len_df data),
             [Txt ''ERROR: '', Str ''single positional indexer is out-of-bounds'']]\<rparr>)"
    using try_body_empty [OF assms] by (simp add: py_try_def print_ok)
  from main_after_try [OF this] show ?thesis by simp
qed

lemma main_unparsable:
  assumes "disk w filename = Some (Unparsable m)"
  shows "main w = (Inr (), w\<lparr>console := console w @ [[Txt ''ERROR: '', Str m]] @ usage_instructions\<rparr>)"
proof -
  have "py_try try_body except w = (Inr (), w\<lparr>console := console w @ [[Txt ''ERROR: '', Str m]]\<rparr>)"
    using try_body_unparsable [OF assms] by (simp add: py_try_def print_ok)
  from main_after_try [OF this] show ?thesis by simp
qed

lemma main_png:
  assumes "disk w filename = Some (Png fig)"
  shows "main w = (Inr (), w\<lparr>console := console w @
            [[Txt ''ERROR: '', Str png_decode_message]] @ usage_instructions\<rparr>)"
proof -
  have "py_try try_body except w =
      (Inr (), w\<lparr>console := console w @ [[Txt ''ERROR: '', Str png_decode_message]]\<rparr>)"
    using try_body_png [OF assms] by (simp add: py_try_def print_ok)
  from main_after_try [OF this] show ?thesis by simp
qed

lemma all_present:
  assumes "find (\<lambda>c. map_of data c = None) expected_columns = None"
  obtains s ax ay az gx gy gz r p where
    "map_of data ''Sample'' = Some s" "map_of data ''AccelX'' = Some ax"
    "map_of data ''AccelY'' = Some ay" "map_of data ''AccelZ'' = Some az"
    "map_of data ''GyroX'' = Some gx" "map_of data ''GyroY'' = Some gy"
    "map_of data ''GyroZ'' = Some gz" "map_of data ''Roll'' = Some r"
    "map_of data ''Pitch'' = Some p"
  using assms by (auto simp: expected_columns_def split: if_splits)

lemma try_body_cases:
  obtains
    (no_file) "disk w filename = None"
  | (unparsable) m where "disk w filename = Some (Unparsable m)"
  | (png) fig where "disk w filename = Some (Png fig)"
  | (missing) data c where "disk w filename = Some (Csv data)"
      "find (\<lambda>c. map_of data c = None) expected_columns = Some c"
  | (empty) data s where "disk w filename = Some (Csv data)"
      "find (\<lambda>c. map_of data c = None) expected_columns = None"
      "map_of data ''Sample'' = Some s" "as_float s = []"
  | (ok) data s where "disk w filename = Some (Csv data)"
      "find (\<lambda>c. map_of data c = None) expected_columns = None"
      "map_of data ''Sample'' = Some s" "as_float s \<noteq> []"
proof (cases "disk w filename")
  case None
  then show ?thesis by (rule no_file)
next
  case (Some f)
  show ?thesis
  proof (cases f)
    case (Csv data)
    show ?thesis
    proof (cases "find (\<lambda>c. map_of data c = None) expected_columns")
      case None
      from all_present [OF None] obtain s where s: "map_of data ''Sample'' = Some s" by blast
      show ?thesis
      proof (cases "as_float s = []")
        case True
        with Some Csv None s show ?thesis by (auto intro: empty)
      next
        case False
        with Some Csv None s show ?thesis by (auto intro: ok)
      qed
    next
      case (Some c)
      with \<open>disk w filename = Some f\<close> Csv show ?thesis by (auto intro: missing)
    qed
  next
    case (Unparsable m)
    with Some show ?thesis by (auto intro: unparsable)
  next
    case (Png fig)
    with Some show ?thesis by (auto intro: png)
  qed
qed

lemma main_ok:
  assumes "disk w filename = Some (Csv data)"
    and "map_of data ''Sample'' = Some s" and "as_float s \<noteq> []"
    and "map_of data ''AccelX'' = Some ax" and "map_of data ''AccelY'' = Some ay"
    and "map_of data ''AccelZ'' = Some az"
    and "map_of data ''GyroX'' = Some gx" and "map_of data ''GyroY'' = Some gy"
    and "map_of data ''GyroZ'' = Some gz"
    and "map_of data ''Roll'' = Some r" and "map_of data ''Pitch'' = Some p"
  shows "fst (main w) = Inr ()"
    and "console (snd (main w)) = console w @
        [loaded_line (len_df data),
         duration_line (last (series_mul s 0.1)),
         sample_rate_line (np_div (len_df data) (last (series_mul s 0.1))),
         [Txt (CHR 0x0A # ''Acceleration statistics (g):'')],
         stats_line ''  X: '' 3 (as_float ax) (as_float ax) (as_float ax),
         stats_line ''  Y: '' 3 (as_float ay) (as_float ay) (as_float ay),
         stats_line ''  Z: '' 3 (as_float az) (as_float az) (as_float az),
         [Txt (CHR 0x0A # ''Gyroscope statistics (deg/s):'')],
         stats_line ''  X: '' 1 (as_float gx) (as_float gx) (as_float gx),
         stats_line ''  Y: '' 1 (as_float gy) (as_float gy) (as_float gy),
         stats_line ''  Z: '' 1 (as_float gz) (as_float gz) (as_float gz),
         [Txt (CHR 0x0A # ''Angle statistics (deg):'')],
         stats_line ''  Roll:  '' 1 (as_float r) (as_float r) (as_float r),
         stats_line ''  Pitch: '' 1 (as_float p) (as_float p) (as_float p),
         saved_line] @ usage_instructions"
    and "disk (snd (main w)) = (disk w)(image_name \<mapsto> Png (Figure ''MPU6050 Data Analysis''
         [Axes ''Acceleration (g)''
            [Curve ''AccelX'' (series_mul s 0.1) (map Finite (as_float ax)),
             Curve ''AccelY'' (series_mul s 0.1) (map Finite (as_float ay)),
             Curve ''AccelZ'' (series_mul s 0.1) (map Finite (as_float az))] None,
          Axes ''Gyroscope (deg/s)''
            [Curve ''GyroX'' (series_mul s 0.1) (map Finite (as_float gx)),
             Curve ''GyroY'' (series_mul s 0.1) (map Finite (as_float gy)),
             Curve ''GyroZ'' (series_mul s 0.1) (map Finite (as_float gz))] None,
          Axes ''Orientation Angles (deg)''
            [Curve ''Roll'' (series_mul s 0.1) (map Finite (as_float r)),
             Curve ''Pitch'' (series_mul s 0.1) (map Finite (as_float p))] None,
          Axes ''Acceleration Magnitude''
            [Curve ''Magnitude'' (series_mul s 0.1)
               (np_sqrt (series_add (series_add (series_pow ax 2) (series_pow ay 2)) (series_pow az 2)))]
            (Some 1)]))"
proof -
  note b = try_body_ok [OF assms]
  have t: "py_try try_body except w = (Inr (), snd (try_body w))"
    by (simp add: py_try_def b)
  show "fst (main w) = Inr ()"
    by (simp add: main_after_try [OF t])
  show "console (snd (main w)) = console w @
        [loaded_line (len_df data),
         duration_line (last (series_mul s 0.1)),
         sample_rate_line (np_div (len_df data) (last (series_mul s 0.1))),
         [Txt (CHR 0x0A # ''Acceleration statistics (g):'')],
         stats_line ''  X: '' 3 (as_float ax) (as_float ax) (as_float ax),
         stats_line ''  Y: '' 3 (as_float ay) (as_float ay) (as_float ay),
         stats_line ''  Z: '' 3 (as_float az) (as_float az) (as_float az),
         [Txt (CHR 0x0A # ''Gyroscope statistics (deg/s):'')],
         stats_line ''  X: '' 1 (as_float gx) (as_float gx) (as_float gx),
         stats_line ''  Y: '' 1 (as_float gy) (as_float gy) (as_float gy),
         stats_line ''  Z: '' 1 (as_float gz) (as_float gz) (as_float gz),
         [Txt (CHR 0x0A # ''Angle statistics (deg):'')],
         stats_line ''  Roll:  '' 1 (as_float r) (as_float r) (as_float r),
         stats_line ''  Pitch: '' 1 (as_float p) (as_float p) (as_float p),
         saved_line] @ usage_instructions"
    by (simp add: main_after_try [OF t] b)
  show "disk (snd (main w)) = (disk w)(image_name \<mapsto> Png (Figure ''MPU6050 Data Analysis''
         [Axes ''Acceleration (g)''
            [Curve ''AccelX'' (series_mul s 0.1) (map Finite (as_float ax)),
             Curve ''AccelY'' (series_mul s 0.1) (map Finite (as_float ay)),
             Curve ''AccelZ'' (series_mul s 0.1) (map Finite (as_float az))] None,
          Axes ''Gyroscope (deg/s)''
            [Curve ''GyroX'' (series_mul s 0.1) (map Finite (as_float gx)),
             Curve ''GyroY'' (series_mul s 0.1) (map Finite (as_float gy)),
             Curve ''GyroZ'' (series_mul s 0.1) (map Finite (as_float gz))] None,
          Axes ''Orientation Angles (deg)''
            [Curve ''Roll'' (series_mul s 0.1) (map Finite (as_float r)),
             Curve ''Pitch'' (series_mul s 0.1) (map Finite (as_float p))] None,
          Axes ''Acceleration Magnitude''
            [Curve ''Magnitude'' (series_mul s 0.1)
               (np_sqrt (series_add (series_add (series_pow ax 2) (series_pow ay 2)) (series_pow az 2)))]
            (Some 1)]))"
    by (simp add: main_after_try [OF t] b)
qed

lemma dataframe_column_length:
  "is_dataframe df \<Longrightarrow> map_of df c = Some col \<Longrightarrow> length (as_float col) = len_df df"
  by (auto simp: is_dataframe_def list_all_iff dest!: map_of_SomeD)

lemma dataframe_column_range:
  "is_dataframe df \<Longrightarrow> map_of df c = Some col \<Longrightarrow> in_dtype col"
  by (auto simp: is_dataframe_def list_all_iff dest!: map_of_SomeD)

lemma well_formed_columns:
  assumes "well_formed data"
  obtains s ax ay az gx gy gz r p where
    "map_of data ''Sample'' = Some s" "map_of data ''AccelX'' = Some ax"
    "map_of data ''AccelY'' = Some ay" "map_of data ''AccelZ'' = Some az"
    "map_of data ''GyroX'' = Some gx" "map_of data ''GyroY'' = Some gy"
    "map_of data ''GyroZ'' = Some gz" "map_of data ''Roll'' = Some r"
    "map_of data ''Pitch'' = Some p"
    "length (as_float s) = len_df data" "length (as_float ax) = len_df data"
    "length (as_float ay) = len_df data" "length (as_float az) = len_df data"
    "length (as_float gx) = len_df data" "length (as_float gy) = len_df data"
    "length (as_float gz) = len_df data" "length (as_float r) = len_df data"
    "length (as_float p) = len_df data"
proof -
  from assms have df: "is_dataframe data"
    and "list_all (\<lambda>c. map_of data c \<noteq> None) expected_columns"
    by (simp_all add: well_formed_def)
  then obtain s ax ay az gx gy gz r p where c:
    "map_of data ''Sample'' = Some s" "map_of data ''AccelX'' = Some ax"
    "map_of data ''AccelY'' = Some ay" "map_of data ''AccelZ'' = Some az"
    "map_of data ''GyroX'' = Some gx" "map_of data ''GyroY'' = Some gy"
    "map_of data ''GyroZ'' = Some gz" "map_of data ''Roll'' = Some r"
    "map_of data ''Pitch'' = Some p"
    by (auto simp: expected_columns_def)
  from c show thesis
    by (rule that) (rule dataframe_column_length [OF df], fact)+
qed

lemma fold_min_eq: "fold min xs (x::real) = Min (set (x # xs))"
  by (rule Min.set_eq_fold [symmetric])

lemma fold_max_eq: "fold max xs (x::real) = Max (set (x # xs))"
  by (rule Max.set_eq_fold [symmetric])

lemma stats_line_direct:
  "xs \<noteq> [] \<Longrightarrow> stats_line prefix d xs xs xs = direct_stats_line prefix d xs"
  by (cases xs)
    (simp_all add: stats_line_def direct_stats_line_def series_min_def series_max_def series_mean_def
      direct_min_def direct_max_def direct_mean_def fold_min_eq fold_max_eq del: set_simps)

section \<open>int64 arithmetic without wrap-around\<close>

lemma wrap64_id: "- (2 ^ 63) \<le> x \<Longrightarrow> x < 2 ^ 63 \<Longrightarrow> wrap64 x = x"
  by (simp add: wrap64_def)




lemma sqrt_entry:
  "i < length (as_float c) \<Longrightarrow> 0 \<le> as_float c ! i \<Longrightarrow> np_sqrt c ! i = Finite (sqrt (as_float c ! i))"
  by (simp add: np_sqrt_def)

lemma pow_entry:
  assumes "i < length (as_float c)" and "int_square c i < 2 ^ 63"
  shows "as_float (series_pow c 2) ! i = (as_float c ! i)\<^sup>2"
proof (cases c)
  case (Int64 xs)
  with assms have "wrap64 ((xs ! i)\<^sup>2) = (xs ! i)\<^sup>2"
    by (intro wrap64_id) (simp_all add: order_trans [OF _ zero_le_power2])
  with Int64 assms show ?thesis by simp
next
  case (Float64 xs)
  with assms show ?thesis by simp
qed


section \<open>Test data\<close>

lemma well_formed_fixed_dataset:
  "length (as_float gx) = 3 \<Longrightarrow> length (as_float gy) = 3 \<Longrightarrow> length (as_float gz) = 3 \<Longrightarrow>
   length (as_float r) = 3 \<Longrightarrow> length (as_float p) = 3 \<Longrightarrow>
   in_dtype gx \<Longrightarrow> in_dtype gy \<Longrightarrow> in_dtype gz \<Longrightarrow> in_dtype r \<Longrightarrow> in_dtype p \<Longrightarrow>
   well_formed (fixed_dataset gx gy gz r p)"
  by (simp add: well_formed_def is_dataframe_def fixed_dataset_def expected_columns_def len_df_def)

lemma well_formed_three_rows: "well_formed three_rows"
  by (simp add: three_rows_def well_formed_fixed_dataset)

lemma well_formed_gyro_ramp: "well_formed gyro_ramp"
  by (simp add: gyro_ramp_def well_formed_fixed_dataset)

lemma fixed_dataset_columns:
  "map_of (fixed_dataset gx gy gz r p) ''Sample'' = Some (Int64 [0, 1, 2])"
  "map_of (fixed_dataset gx gy gz r p) ''AccelX'' = Some (Int64 [0, 0, 0])"
  "map_of (fixed_dataset gx gy gz r p) ''AccelY'' = Some (Int64 [0, 0, 0])"
  "map_of (fixed_dataset gx gy gz r p) ''AccelZ'' = Some (Int64 [1, 1, 1])"
  "map_of (fixed_dataset gx gy gz r p) ''GyroX'' = Some gx"
  "map_of (fixed_dataset gx gy gz r p) ''GyroY'' = Some gy"
  "map_of (fixed_dataset gx gy gz r p) ''GyroZ'' = Some gz"
  "map_of (fixed_dataset gx gy gz r p) ''Roll'' = Some r"
  "map_of (fixed_dataset gx gy gz r p) ''Pitch'' = Some p"
  by (simp_all add: fixed_dataset_def)

lemma fixed_dataset_len: "len_df (fixed_dataset gx gy gz r p) = 3"
  by (simp add: fixed_dataset_def len_df_def)

lemma fresh_world_disk: "disk (fresh_world f) filename = Some f"
  by (simp add: fresh_world_def)

lemma fresh_world_console: "console (fresh_world f) = []"
  by (simp add: fresh_world_def)

section \<open>The derived series\<close>

text \<open>
  Claim C1. For every well-formed dataset the time series of line 14 exists, has one entry
  per row, and its entry at every row is the Sample entry of that row times 0.1.
\<close>

theorem time_is_sample_times_tenth:
  assumes "well_formed data"
  shows "\<exists>sample time. map_of data ''Sample'' = Some sample \<and>
     compute_time data w = (Inr time, w) \<and> length time = len_df data \<and>
     (\<forall>i<len_df data. time ! i = as_float sample ! i * 0.1)"
proof -
  from assms obtain s where s: "map_of data ''Sample'' = Some s" "length (as_float s) = len_df data"
    by (rule well_formed_columns)
  have "compute_time data w = (Inr (series_mul s 0.1), w)"
    by (rule compute_time_ok [OF s(1)])
  moreover have "length (series_mul s 0.1) = len_df data"
    using s(2) by (simp add: series_mul_def)
  moreover have "\<forall>i<len_df data. series_mul s 0.1 ! i = as_float s ! i * 0.1"
    using s(2) by (simp add: series_mul_def)
  ultimately show ?thesis using s(1) by blast
qed

theorem time_is_sample_times_tenth_witness:
  "well_formed three_rows \<and>
   fst (compute_time three_rows (fresh_world (Csv three_rows))) = Inr [0, 1 / 10, 2 / 10]"
  using well_formed_three_rows
    time_is_sample_times_tenth [OF well_formed_three_rows, of "fresh_world (Csv three_rows)"]
  by (simp add: compute_time_ok three_rows_def fixed_dataset_def series_mul_def)




section \<open>The report\<close>

text \<open>
  The sample rate of line 63 is the number of rows divided by the last time stamp. On
  consecutive samples \<open>0, 1, ..., n - 1\<close> that is \<open>10 n / (n - 1)\<close>: the \<open>n\<close> rows span
  \<open>n - 1\<close> intervals of 0.1 s, so the value is above 10 for every \<open>n\<close>.
\<close>

lemma sample_rate_consecutive:
  assumes "2 \<le> n"
  shows "np_div n (last (series_mul (Int64 (map int [0..<n])) 0.1)) =
      Finite (10 * real n / (real n - 1))"
    and "10 * real n / (real n - 1) \<noteq> 10"
proof -
  from assms obtain k where n: "n = Suc (Suc k)"
    by (metis Suc_le_D numeral_2_eq_2 Suc_le_mono)
  show "np_div n (last (series_mul (Int64 (map int [0..<n])) 0.1)) =
      Finite (10 * real n / (real n - 1))"
    by (simp add: n series_mul_def np_div_def last_map field_simps)
  show "10 * real n / (real n - 1) \<noteq> 10"
    by (simp add: n field_simps)
qed

text \<open>
  Claim C3. The claim is that on consecutive samples the printed sample rate is the fixed
  10 Hz. On the three-row dataset with Sample 0, 1, 2 the script prints the sample rate
  15 (3 rows over 0.2 s) and no sample-rate line with the value 10.
\<close>

theorem sample_rate_three_rows:
  "[Txt ''Sample rate: '', Fix 1 (Finite 15), Txt '' Hz'']
     \<in> set (console (snd (main (fresh_world (Csv three_rows))))) \<and>
   [Txt ''Sample rate: '', Fix 1 (Finite 10), Txt '' Hz'']
     \<notin> set (console (snd (main (fresh_world (Csv three_rows)))))"
  by (simp add: three_rows_def
      main_ok(2) [OF fresh_world_disk fixed_dataset_columns(1) _ fixed_dataset_columns(2-9)]
      fresh_world_console fixed_dataset_len series_mul_def np_div_def sample_rate_line_def
      duration_line_def loaded_line_def stats_line_def saved_line_def usage_instructions_def)

text \<open>
  Claim C4. On every dataset with three rows holding Sample 0, 1, 2, AccelX and AccelY
  all 0 and AccelZ all 1, whatever the dtype of these columns and whatever the other
  columns hold, the magnitude series is 1, 1, 1 and the script prints the duration 0.2
  seconds.
\<close>

lemma as_float_cases:
  assumes "as_float c = map real_of_int vs"
  obtains "c = Int64 vs" | "c = Float64 (map real_of_int vs)"
proof (cases c)
  case (Int64 xs)
  with assms have "map real_of_int xs = map real_of_int vs" by simp
  then have "xs = vs" by (simp add: inj_map_eq_map inj_on_def)
  with Int64 that(1) show ?thesis by simp
next
  case (Float64 xs)
  with assms that(2) show ?thesis by simp
qed

theorem fixed_dataset_magnitude_and_duration:
  assumes "disk w filename = Some (Csv data)"
    and "map_of data ''Sample'' = Some s" and "as_float s = [0, 1, 2]"
    and "map_of data ''AccelX'' = Some ax" and "as_float ax = [0, 0, 0]"
    and "map_of data ''AccelY'' = Some ay" and "as_float ay = [0, 0, 0]"
    and "map_of data ''AccelZ'' = Some az" and "as_float az = [1, 1, 1]"
    and "map_of data ''GyroX'' = Some gx" and "map_of data ''GyroY'' = Some gy"
    and "map_of data ''GyroZ'' = Some gz"
    and "map_of data ''Roll'' = Some r" and "map_of data ''Pitch'' = Some p"
  shows "accel_magnitude data w = (Inr [Finite 1, Finite 1, Finite 1], w) \<and>
     [Txt ''Duration: '', Fix 1 (Finite 0.2), Txt '' seconds''] \<in> set (console (snd (main w)))"
proof -
  have "as_float ax = map real_of_int [0, 0, 0]" "as_float ay = map real_of_int [0, 0, 0]"
    "as_float az = map real_of_int [1, 1, 1]"
    using assms(5,7,9) by simp_all
  then have m: "np_sqrt (series_add (series_add (series_pow ax 2) (series_pow ay 2)) (series_pow az 2)) =
      [Finite 1, Finite 1, Finite 1]"
    by (elim as_float_cases) (simp_all add: np_sqrt_def wrap64_def)
  have t: "series_mul s 0.1 = [0, 0.1, 0.2]"
    using assms(3) by (simp add: series_mul_def)
  have ne: "as_float s \<noteq> []"
    using assms(3) by simp
  have "accel_magnitude data w = (Inr [Finite 1, Finite 1, Finite 1], w)"
    by (simp add: accel_magnitude_ok [OF assms(4,6,8)] m)
  moreover have "[Txt ''Duration: '', Fix 1 (Finite 0.2), Txt '' seconds''] \<in> set (console (snd (main w)))"
    by (simp add: main_ok(2) [OF assms(1,2) ne assms(4,6,8,10-14)] t duration_line_def)
  ultimately show ?thesis by blast
qed

theorem fixed_dataset_magnitude_and_duration_witness:
  "disk (fresh_world (Csv three_rows)) filename = Some (Csv three_rows) \<and>
   map_of three_rows ''Sample'' = Some (Int64 [0, 1, 2]) \<and>
   map_of three_rows ''AccelX'' = Some (Int64 [0, 0, 0]) \<and>
   map_of three_rows ''AccelY'' = Some (Int64 [0, 0, 0]) \<and>
   map_of three_rows ''AccelZ'' = Some (Int64 [1, 1, 1]) \<and>
   [Txt ''Duration: '', Fix 1 (Finite (2 / 10)), Txt '' seconds'']
     \<in> set (console (snd (main (fresh_world (Csv three_rows)))))"
proof -
  note c = fixed_dataset_columns [of "Float64 [0, 0, 0]" "Float64 [0, 0, 0]" "Float64 [0, 0, 0]"
      "Float64 [0, 0, 0]" "Float64 [0, 0, 0]", folded three_rows_def]
  have v: "as_float (Int64 [0, 1, 2]) = [0, 1, 2]" "as_float (Int64 [0, 0, 0]) = [0, 0, 0]"
    "as_float (Int64 [1, 1, 1]) = [1, 1, 1]"
    by simp_all
  show ?thesis
    using fixed_dataset_magnitude_and_duration [OF fresh_world_disk c(1) v(1) c(2) v(2) c(3) v(2) c(4) v(3) c(5-9)]
    by (simp add: fresh_world_disk c)
qed

text \<open>
  Claim C5. For every well-formed dataset with at least one row, the console output of the
  script is the one whose statistics lines for AccelX, AccelY, AccelZ, GyroX, GyroY, GyroZ,
  Roll and Pitch carry the minimum, the maximum and the arithmetic mean taken directly
  over the loaded column.
\<close>

theorem report_matches_direct_aggregation:
  assumes "well_formed data" and "0 < len_df data"
    and "disk w filename = Some (Csv data)"
    and "map_of data ''Sample'' = Some s"
    and "map_of data ''AccelX'' = Some ax" and "map_of data ''AccelY'' = Some ay"
    and "map_of data ''AccelZ'' = Some az"
    and "map_of data ''GyroX'' = Some gx" and "map_of data ''GyroY'' = Some gy"
    and "map_of data ''GyroZ'' = Some gz"
    and "map_of data ''Roll'' = Some r" and "map_of data ''Pitch'' = Some p"
  shows "console (snd (main w)) = console w @
        [loaded_line (len_df data),
         duration_line (last (series_mul s 0.1)),
         sample_rate_line (np_div (len_df data) (last (series_mul s 0.1))),
         [Txt (CHR 0x0A # ''Acceleration statistics (g):'')],
         direct_stats_line ''  X: '' 3 (as_float ax),
         direct_stats_line ''  Y: '' 3 (as_float ay),
         direct_stats_line ''  Z: '' 3 (as_float az),
         [Txt (CHR 0x0A # ''Gyroscope statistics (deg/s):'')],
         direct_stats_line ''  X: '' 1 (as_float gx),
         direct_stats_line ''  Y: '' 1 (as_float gy),
         direct_stats_line ''  Z: '' 1 (as_float gz),
         [Txt (CHR 0x0A # ''Angle statistics (deg):'')],
         direct_stats_line ''  Roll:  '' 1 (as_float r),
         direct_stats_line ''  Pitch: '' 1 (as_float p),
         saved_line] @ usage_instructions"
proof -
  from assms(1) have df: "is_dataframe data" by (simp add: well_formed_def)
  have ne: "as_float col \<noteq> []" if "map_of data c = Some col" for c col
    using dataframe_column_length [OF df that] assms(2) by auto
  note cols = assms(4-12)
  show ?thesis
    by (simp only: main_ok(2) [OF assms(3) cols(1) ne [OF cols(1)] cols(2-9)]
        stats_line_direct [OF ne [OF cols(2)]] stats_line_direct [OF ne [OF cols(3)]]
        stats_line_direct [OF ne [OF cols(4)]] stats_line_direct [OF ne [OF cols(5)]]
        stats_line_direct [OF ne [OF cols(6)]] stats_line_direct [OF ne [OF cols(7)]]
        stats_line_direct [OF ne [OF cols(8)]] stats_line_direct [OF ne [OF cols(9)]])
qed

theorem report_matches_direct_aggregation_witness:
  "well_formed gyro_ramp \<and> 0 < len_df gyro_ramp \<and>
   [Txt ''  X: '', Txt ''min='', Fix 1 (Finite 1), Txt '', max='', Fix 1 (Finite 3),
    Txt '', avg='', Fix 1 (Finite 2)]
     \<in> set (console (snd (main (fresh_world (Csv gyro_ramp)))))"
proof -
  note c = fixed_dataset_columns [of "Float64 [1, 2, 3]" "Float64 [0, 0, 0]" "Float64 [0, 0, 0]"
      "Float64 [0, 0, 0]" "Float64 [0, 0, 0]", folded gyro_ramp_def]
  have l: "0 < len_df gyro_ramp"
    by (simp add: gyro_ramp_def fixed_dataset_len)
  show ?thesis
    using well_formed_gyro_ramp l
    by (simp add: report_matches_direct_aggregation [OF well_formed_gyro_ramp l fresh_world_disk c]
        direct_stats_line_def direct_min_def direct_max_def direct_mean_def)
qed

section \<open>Error handling\<close>

lemma find_missing:
  assumes "c \<in> set expected_columns" and "map_of data c = None"
  obtains c' where "find (\<lambda>c. map_of data c = None) expected_columns = Some c'"
    "c' \<in> set expected_columns" "map_of data c' = None"
proof (cases "find (\<lambda>c. map_of data c = None) expected_columns")
  case None
  with assms show ?thesis by (auto simp: find_None_iff)
next
  case (Some c')
  then have "c' \<in> set expected_columns" "map_of data c' = None"
    by (auto simp: find_Some_iff)
  with Some show ?thesis by (rule that)
qed

text \<open>
  Claim C6. When the input file loads and an expected column is absent, the script ends
  without an uncaught exception and prints the missing-column message, which names the
  first expected column (in the order the script reads them) that the file lacks.
\<close>

theorem missing_column_reported:
  assumes "disk w filename = Some (Csv data)" and "is_dataframe data"
    and "c \<in> set expected_columns" and "map_of data c = None"
  shows "fst (main w) = Inr () \<and>
     (\<exists>c'. find (\<lambda>c. map_of data c = None) expected_columns = Some c' \<and>
        c' \<in> set expected_columns \<and> map_of data c' = None \<and>
        console (snd (main w)) = console w @
          [[Txt ''Data loaded: '', Num (len_df data), Txt '' samples''],
           [Txt ''ERROR: Column not found: '', Str ([CHR 0x27] @ c' @ [CHR 0x27])],
           [Txt ''Check if CSV has correct header:''],
           [Txt ''Sample,AccelX,AccelY,AccelZ,GyroX,GyroY,GyroZ,Roll,Pitch'']] @
          usage_instructions)"
proof -
  from assms(3,4) obtain c' where c':
    "find (\<lambda>c. map_of data c = None) expected_columns = Some c'"
    "c' \<in> set expected_columns" "map_of data c' = None"
    by (rule find_missing)
  from main_key_error [OF assms(1) c'(1)] c' show ?thesis
    by (simp add: key_error_message_def loaded_line_def)
qed

theorem missing_column_reported_witness:
  "disk (fresh_world (Csv two_columns)) filename = Some (Csv two_columns) \<and>
   is_dataframe two_columns \<and> ''Roll'' \<in> set expected_columns \<and>
   map_of two_columns ''Roll'' = None \<and>
   console (snd (main (fresh_world (Csv two_columns)))) =
     [[Txt ''Data loaded: '', Num 2, Txt '' samples''],
      [Txt ''ERROR: Column not found: '', Str ([CHR 0x27] @ ''AccelY'' @ [CHR 0x27])],
      [Txt ''Check if CSV has correct header:''],
      [Txt ''Sample,AccelX,AccelY,AccelZ,GyroX,GyroY,GyroZ,Roll,Pitch'']] @
     usage_instructions"
proof -
  have h: "is_dataframe two_columns" "''Roll'' \<in> set expected_columns"
    "map_of two_columns ''Roll'' = None"
    by (simp_all add: two_columns_def is_dataframe_def len_df_def expected_columns_def)
  show ?thesis
    using h missing_column_reported [OF fresh_world_disk h]
    by (simp add: fresh_world_disk fresh_world_console two_columns_def expected_columns_def
        len_df_def numeral_2_eq_2)
qed

text \<open>
  Claim C7. When \<^verbatim>\<open>mpu_data.csv\<close> does not exist, the script ends without an uncaught
  exception and prints the file-not-found message with its three remediation steps.
\<close>

theorem missing_file_reported:
  assumes "disk w filename = None"
  shows "fst (main w) = Inr () \<and>
     console (snd (main w)) = console w @
       [[Txt ''ERROR: File '', Txt [CHR 0x27], Str ''mpu_data.csv'', Txt [CHR 0x27], Txt '' not found!''],
        [Txt (CHR 0x0A # ''Make sure to:'')],
        [Txt ''1. Transfer CSV file from microcontroller using 't' command''],
        [Txt (''2. Copy data between markers and save as 'mpu_data.csv'' @ [CHR 0x27])],
        [Txt ''3. Put file in same folder as this script'']] @
       usage_instructions"
  by (simp add: main_no_file [OF assms] file_not_found_message_def filename_def)

theorem missing_file_reported_witness:
  "disk \<lparr>console = [], disk = Map.empty\<rparr> filename = None \<and>
   fst (main \<lparr>console = [], disk = Map.empty\<rparr>) = Inr () \<and>
   console (snd (main \<lparr>console = [], disk = Map.empty\<rparr>)) = file_not_found_message @ usage_instructions"
  using missing_file_reported [of "\<lparr>console = [], disk = Map.empty\<rparr>"]
  by (simp add: file_not_found_message_def filename_def)

text \<open>
  Claim C8. Whenever the body of the \<^verbatim>\<open>try\<close> raises, the disk is as it was before the
  run, both when the exception is raised and when the script ends: the image is not written.
\<close>

theorem image_not_written_on_error:
  assumes "try_body w = (Inl e, w')"
  shows "disk w' = disk w \<and> disk (snd (main w)) = disk w \<and> fst (main w) = Inr ()"
proof (cases w rule: try_body_cases)
  case no_file
  with assms show ?thesis by (simp add: try_body_no_file main_no_file)
next
  case (unparsable m)
  with assms show ?thesis by (simp add: try_body_unparsable main_unparsable)
next
  case (png fig)
  with assms show ?thesis by (simp add: try_body_png main_png)
next
  case (missing data c)
  from assms show ?thesis
    by (auto simp: try_body_key_error [OF missing] main_key_error [OF missing])
next
  case (empty data s)
  from assms show ?thesis
    by (auto simp: try_body_empty [OF empty] main_empty [OF empty])
next
  case (ok data s)
  from all_present [OF ok(2)] obtain s' ax ay az gx gy gz r p where c:
    "map_of data ''Sample'' = Some s'" "map_of data ''AccelX'' = Some ax"
    "map_of data ''AccelY'' = Some ay" "map_of data ''AccelZ'' = Some az"
    "map_of data ''GyroX'' = Some gx" "map_of data ''GyroY'' = Some gy"
    "map_of data ''GyroZ'' = Some gz" "map_of data ''Roll'' = Some r"
    "map_of data ''Pitch'' = Some p"
    by blast
  from assms show ?thesis
    by (simp add: try_body_ok [OF ok(1) ok(3,4) c(2-9)])
qed

lemma header_only_columns:
  "find (\<lambda>c. map_of header_only c = None) expected_columns = None"
  "map_of header_only ''Sample'' = Some (Float64 [])" "len_df header_only = 0"
  by (simp_all add: header_only_def expected_columns_def len_df_def)

theorem image_not_written_on_error_witness:
  "try_body (fresh_world (Csv header_only)) =
     (Inl (IndexError ''single positional indexer is out-of-bounds''),
      (fresh_world (Csv header_only))\<lparr>console := [loaded_line 0]\<rparr>) \<and>
   disk (snd (main (fresh_world (Csv header_only)))) image_name = None"
proof -
  have t: "try_body (fresh_world (Csv header_only)) =
     (Inl (IndexError ''single positional indexer is out-of-bounds''),
      (fresh_world (Csv header_only))\<lparr>console := [loaded_line 0]\<rparr>)"
    using try_body_empty [OF fresh_world_disk header_only_columns(1,2)]
    by (simp add: header_only_columns(3) fresh_world_console)
  show ?thesis
    using t image_not_written_on_error [OF t]
    by (simp add: fresh_world_def filename_def image_name_def)
qed

text \<open>
  Claim C9. For a file with every expected column and no rows, loading succeeds, the
  duration lookup raises, the generic handler prints its \<^verbatim>\<open>ERROR:\<close> message, and the script
  ends without an uncaught exception: the console holds the loaded line, the error line and
  the usage instructions, hence no statistics, and the disk is unchanged.
\<close>

theorem header_only_generic_error:
  assumes "disk w filename = Some (Csv data)" and "well_formed data" and "len_df data = 0"
  shows "fst (main w) = Inr () \<and>
     console (snd (main w)) = console w @
       [[Txt ''Data loaded: '', Num 0, Txt '' samples''],
        [Txt ''ERROR: '', Str ''single positional indexer is out-of-bounds'']] @
       usage_instructions \<and>
     disk (snd (main w)) = disk w"
proof -
  from assms(2) obtain s where s: "map_of data ''Sample'' = Some s"
    "length (as_float s) = len_df data"
    by (rule well_formed_columns)
  from assms(2) have f: "find (\<lambda>c. map_of data c = None) expected_columns = None"
    by (simp add: well_formed_def find_None_iff list_all_iff)
  from s assms(3) have e: "as_float s = []" by simp
  show ?thesis
    using main_empty [OF assms(1) f s(1) e] assms(3) by (simp add: loaded_line_def)
qed

theorem header_only_generic_error_witness:
  "disk (fresh_world (Csv header_only)) filename = Some (Csv header_only) \<and>
   well_formed header_only \<and> len_df header_only = 0 \<and>
   console (snd (main (fresh_world (Csv header_only)))) =
     [[Txt ''Data loaded: '', Num 0, Txt '' samples''],
      [Txt ''ERROR: '', Str ''single positional indexer is out-of-bounds'']] @
     usage_instructions"
proof -
  have h: "well_formed header_only" "len_df header_only = 0"
    by (simp_all add: well_formed_def is_dataframe_def header_only_def expected_columns_def len_df_def)
  show ?thesis
    using h header_only_generic_error [OF fresh_world_disk h]
    by (simp add: fresh_world_disk fresh_world_console)
qed

text \<open>
  Claim C10. Every run ends without an uncaught exception, and the console output it adds
  ends with the five lines of the usage instructions block: the heading and the four
  numbered steps of lines 101 to 105.
\<close>

theorem usage_instructions_printed_last:
  "fst (main w) = Inr () \<and>
   (\<exists>out. console (snd (main w)) = console w @ out @
      [[Txt (CHR 0x0A # ''USAGE INSTRUCTIONS:'')],
       [Txt (''1. On microcontroller: press 't' -> type 'mpu_data.csv'' @ [CHR 0x27])],
       [Txt ''2. Copy data between markers''],
       [Txt (''3. Paste in text file and save as 'mpu_data.csv'' @ [CHR 0x27])],
       [Txt ''4. Run: python PlotaDados.py'']])"
proof -
  have "fst (main w) = Inr () \<and> (\<exists>out. console (snd (main w)) = console w @ out @ usage_instructions)"
  proof (cases w rule: try_body_cases)
    case no_file
    then show ?thesis by (simp add: main_no_file)
  next
    case (unparsable m)
    then show ?thesis by (simp add: main_unparsable)
  next
    case (png fig)
    then show ?thesis by (simp add: main_png)
  next
    case (missing data c)
    show ?thesis by (simp add: main_key_error [OF missing])
  next
    case (empty data s)
    show ?thesis by (simp add: main_empty [OF empty])
  next
    case (ok data s)
    from all_present [OF ok(2)] obtain s' ax ay az gx gy gz r p where c:
      "map_of data ''Sample'' = Some s'" "map_of data ''AccelX'' = Some ax"
      "map_of data ''AccelY'' = Some ay" "map_of data ''AccelZ'' = Some az"
      "map_of data ''GyroX'' = Some gx" "map_of data ''GyroY'' = Some gy"
      "map_of data ''GyroZ'' = Some gz" "map_of data ''Roll'' = Some r"
      "map_of data ''Pitch'' = Some p"
      by blast
    show ?thesis
      by (simp add: main_ok(1,2) [OF ok(1) ok(3,4) c(2-9)])
  qed
  then show ?thesis by (simp only: usage_instructions_def)
qed

end
